theory Spec2Isabelle
  imports Complex_Main
begin

section \<open>Hybrid energy system components: a shallow embedding\<close>

text \<open>
  The components of the hybrid energy system (PV panel, battery, diesel generator, grid,
  load) and the system aggregator, translated from the Python sources under
  \<^verbatim>\<open>System Components/\<close>.

  Python floats are read as real numbers: the branch structure, the error branches and
  the algebra of the source are kept, rounding is not. The trigonometric functions of
  numpy are those of \<^typ>\<open>real\<close>; where numpy would return \<^verbatim>\<open>nan\<close> or
  \<^verbatim>\<open>inf\<close> (an \<^verbatim>\<open>arccos\<close> out of range, a division of numpy floats by zero) the
  real-valued model has some value, and no theorem below depends on it. Where a claim
  turns on the branch a comparison selects or on the exception an operation raises, the
  model records the branch and distinguishes Python's ints, finite floats, infinities and
  nan.
\<close>

subsection \<open>Exceptions\<close>

datatype error =
    ValueError_interest_rate
  | ValueError_missing_columns "string list"
  | ValueError_irradiance_first
  | ZeroDivisionError
  | OverflowError
  | IndexError
  | KeyError string
  | AttributeError string
  | TypeError
  | NotImplementedError

subsection \<open>pv\_panel.py: radiation on a sloped surface (HDKR model)\<close>

definition radians :: "real \<Rightarrow> real" where
  "radians x = x * pi / 180"

definition degrees :: "real \<Rightarrow> real" where
  "degrees x = x * 180 / pi"

text \<open>Extraterrestrial normal radiation for the day angle \<open>b\<close>, lines 187 to 189.\<close>

definition solar_radiation :: "real \<Rightarrow> real" where
  "solar_radiation b =
     1367 * (1.000110 + 0.034221 * cos (radians b) + 0.001280 * sin (radians b) +
             0.000719 * cos (radians (2 * b)) + 0.000077 * sin (radians (2 * b)))"

text \<open>
  Lines 167 to 189 and 200 to 213 of \<^verbatim>\<open>radiation_slope_surface\<close>: the geometry and
  the three contributions on the slope, for the value \<open>Ro_d\<close> of the diffuse fraction that
  lines 191 to 198 compute.
\<close>

definition hdkr_radiation ::
  "real \<Rightarrow> real \<Rightarrow> real \<Rightarrow> real \<Rightarrow> real \<Rightarrow> real \<Rightarrow> real \<Rightarrow> real \<Rightarrow> real \<Rightarrow> real \<Rightarrow> real \<Rightarrow> real"
where
  "hdkr_radiation day time G_horizontal_radiation solar_zenith longitude latitude
       timezone_index tilt_angle surface_azim ground_reflectance Ro_d =
      (let longit_zone = 15 * timezone_index;
           b = (day - 1) * (360 / 365);
           e = 229.2 * (0.000075 + 0.001868 * cos (radians b) - 0.032077 * sin (radians b) -
                        0.014615 * cos (radians (2 * b)) - 0.04089 * sin (radians (2 * b)));
           t_solar = time + (4 * (longitude - longit_zone) + e) / 60;
           delta = 23.45 * sin (radians (360 * (284 + day) / 365));
           sign = (if t_solar \<ge> 12 then 1 else - 1);
           solar_azimuth = sign * \<bar>degrees (arccos
              ((cos (radians solar_zenith) * sin (radians latitude) - sin (radians delta)) /
               (sin (radians solar_zenith) * cos (radians latitude))))\<bar>;
           theta = cos (radians solar_zenith) * cos (radians tilt_angle) +
                   sin (radians solar_zenith) * sin (radians tilt_angle) *
                     cos (radians (solar_azimuth - surface_azim));
           diffuse_radiation = Ro_d * G_horizontal_radiation;
           beam_radiation = (1 - Ro_d) * G_horizontal_radiation;
           Rb = cos (radians theta) / cos (radians solar_zenith);
           Ai = beam_radiation / (solar_radiation b * cos (radians solar_zenith));
           beam_radiation_HDKR = (beam_radiation + diffuse_radiation * Ai) * Rb;
           f = sqrt (beam_radiation / G_horizontal_radiation);
           diffuse_radiation_HDKR =
             diffuse_radiation * (1 - Ai) * ((1 + cos (radians tilt_angle)) / 2) *
               (1 + f * sin (radians (tilt_angle / 2)) ^ 3);
           diffuse_radiation_reflected =
             G_horizontal_radiation * ground_reflectance * ((1 - cos (radians tilt_angle)) / 2)
       in beam_radiation_HDKR + diffuse_radiation_HDKR + diffuse_radiation_reflected)"

text \<open>
  The three-way branch on the clearness index, lines 193 to 198. \<open>Ro_d_branch\<close> is the
  \<^verbatim>\<open>if\<close>/\<^verbatim>\<open>elif\<close>/\<^verbatim>\<open>else\<close> chain with, beside the value assigned to
  \<^verbatim>\<open>Ro_d\<close>, the branch that assigns it; \<open>Ro_d\<close> is the value.
\<close>

datatype kt_branch = First_branch | Constant_branch | Linear_branch

definition Ro_d_branch :: "real \<Rightarrow> kt_branch \<times> real" where
  "Ro_d_branch clearness_index =
     (if clearness_index \<le> 0.35 then (First_branch, 1 - 0.249 * clearness_index)
      else if clearness_index > 0.75 then (Constant_branch, 0.177)
      else (Linear_branch, 1.557 - 1.84 * clearness_index))"

definition Ro_d :: "real \<Rightarrow> real" where
  "Ro_d clearness_index = snd (Ro_d_branch clearness_index)"

text \<open>Line 191.\<close>

definition clearness_index :: "real \<Rightarrow> real \<Rightarrow> real \<Rightarrow> real" where
  "clearness_index day G_horizontal_radiation solar_zenith =
     G_horizontal_radiation /
       (solar_radiation ((day - 1) * (360 / 365)) * cos (radians solar_zenith))"

text \<open>
  \<^verbatim>\<open>radiation_slope_surface(day, time, G_horizontal_radiation, solar_zenith, longitude,
  latitude, timezone_index, tilt_angle, surface_azim, ground_reflectance)\<close>. The
  optional \<^verbatim>\<open>tilt_angle\<close> is an \<open>option\<close>; the early return of line 165 comes first,
  before any geometry; past it, the diffuse fraction is that of the clearness index of the
  call.
\<close>

definition radiation_slope_surface ::
  "real \<Rightarrow> real \<Rightarrow> real \<Rightarrow> real \<Rightarrow> real \<Rightarrow> real \<Rightarrow> real \<Rightarrow> real option \<Rightarrow> real \<Rightarrow> real \<Rightarrow> real"
where
  "radiation_slope_surface day time G_horizontal_radiation solar_zenith longitude latitude
       timezone_index tilt_angle_opt surface_azim ground_reflectance =
    (let tilt_angle = (case tilt_angle_opt of None \<Rightarrow> latitude | Some a \<Rightarrow> a) in
     if G_horizontal_radiation = 0 \<or> solar_zenith < 0 then 0
     else hdkr_radiation day time G_horizontal_radiation solar_zenith longitude latitude
            timezone_index tilt_angle surface_azim ground_reflectance
            (Ro_d (clearness_index day G_horizontal_radiation solar_zenith)))"

subsection \<open>Python arithmetic and sequencing of calls that may raise\<close>

text \<open>
  \<^verbatim>\<open>a / b\<close> and \<^verbatim>\<open>a ** n\<close> on finite floats, with exact real results: a zero divisor
  raises, and zero to a negative power raises. These two are the arithmetic of the cost
  methods; they do not round, so they say nothing of rates so small that \<^verbatim>\<open>1 + r\<close> is
  \<^verbatim>\<open>1.0\<close> in double precision, and no theorem below is about such rates.
\<close>

definition py_truediv :: "real \<Rightarrow> real \<Rightarrow> error + real" where
  "py_truediv a b = (if b = 0 then Inl ZeroDivisionError else Inr (a / b))"

definition py_pow :: "real \<Rightarrow> int \<Rightarrow> error + real" where
  "py_pow a n = (if a = 0 \<and> n < 0 then Inl ZeroDivisionError else Inr (a powi n))"

text \<open>An exception of the first computation is the exception of the whole.\<close>

definition bind_err :: "error + 'a \<Rightarrow> ('a \<Rightarrow> error + 'b) \<Rightarrow> error + 'b" where
  "bind_err m f = (case m of Inl e \<Rightarrow> Inl e | Inr x \<Rightarrow> f x)"

text \<open>
  A call site that passes the positional arguments \<open>args\<close> to a method of one parameter
  besides \<^verbatim>\<open>self\<close>: Python binds exactly one argument and raises \<^verbatim>\<open>TypeError\<close>
  otherwise.
\<close>

definition call1 :: "('a \<Rightarrow> error + 'b) \<Rightarrow> 'a list \<Rightarrow> error + 'b" where
  "call1 f args = (case args of [a] \<Rightarrow> f a | _ \<Rightarrow> Inl TypeError)"

subsection \<open>Python numbers: ints, floats, and true division\<close>

text \<open>
  A float is a finite double, an infinity or nan; a number is an int, of any size, or a
  float. An int converts to a float unless it rounds to \<open>2 ^ 1024\<close> or beyond, that is
  from \<open>2 ^ 1024 - 2 ^ 970\<close> on, where the conversion raises \<^verbatim>\<open>OverflowError\<close>.
\<close>

datatype pyfloat = Finite real | PosInf | NegInf | NaN

datatype pynum = PyInt int | PyFloat pyfloat

definition dbl_overflow :: "real \<Rightarrow> bool" where
  "dbl_overflow x = (2 ^ 1024 - 2 ^ 970 \<le> \<bar>x\<bar>)"

fun to_double :: "pynum \<Rightarrow> error + pyfloat" where
  "to_double (PyFloat f) = Inr f"
| "to_double (PyInt i) =
     (if dbl_overflow (of_int i) then Inl OverflowError else Inr (Finite (of_int i)))"

text \<open>
  The division of two floats: a zero divisor raises, whatever the dividend; otherwise
  the result follows IEEE 754, with nan from a nan operand or from two infinities, and an
  infinity, not an exception, from a quotient too large for a double.
\<close>

fun float_div :: "pyfloat \<Rightarrow> pyfloat \<Rightarrow> error + pyfloat" where
  "float_div a (Finite y) =
     (if y = 0 then Inl ZeroDivisionError
      else (case a of
              Finite x \<Rightarrow>
                Inr (if dbl_overflow (x / y) then (if 0 < x / y then PosInf else NegInf)
                     else Finite (x / y))
            | PosInf \<Rightarrow> Inr (if 0 < y then PosInf else NegInf)
            | NegInf \<Rightarrow> Inr (if 0 < y then NegInf else PosInf)
            | NaN \<Rightarrow> Inr NaN))"
| "float_div a NaN = Inr NaN"
| "float_div (Finite x) PosInf = Inr (Finite 0)"
| "float_div (Finite x) NegInf = Inr (Finite 0)"
| "float_div a PosInf = Inr NaN"
| "float_div a NegInf = Inr NaN"

text \<open>
  \<^verbatim>\<open>a / b\<close> on numbers. Two ints are divided exactly: a zero divisor raises, a quotient
  too large for a double raises \<^verbatim>\<open>OverflowError\<close>. Otherwise the left and then the
  right operand are converted, and the floats divided.
\<close>

fun py_truediv_num :: "pynum \<Rightarrow> pynum \<Rightarrow> error + pyfloat" where
  "py_truediv_num (PyInt i) (PyInt j) =
     (if j = 0 then Inl ZeroDivisionError
      else if dbl_overflow (of_int i / of_int j) then Inl OverflowError
      else Inr (Finite (of_int i / of_int j)))"
| "py_truediv_num a b =
     bind_err (to_double a) (\<lambda>x. bind_err (to_double b) (\<lambda>y. float_div x y))"

text \<open>\<^verbatim>\<open>a == b\<close> on floats: nan is equal to nothing.\<close>

definition float_eq :: "pyfloat \<Rightarrow> pyfloat \<Rightarrow> bool" where
  "float_eq a b = (a \<noteq> NaN \<and> a = b)"

subsection \<open>Data frames\<close>

text \<open>
  A pandas column holds integers or floats; a data frame is its columns in order, all
  of one length. Reading an integer column as numbers embeds it in the reals; using a
  float column as an index to a numpy array raises \<^verbatim>\<open>IndexError\<close>.
\<close>

datatype series = IntSeries "int list" | FloatSeries "real list"

type_synonym dataframe = "(string \<times> series) list"

fun series_len :: "series \<Rightarrow> nat" where
  "series_len (IntSeries xs) = length xs"
| "series_len (FloatSeries xs) = length xs"

fun series_reals :: "series \<Rightarrow> real list" where
  "series_reals (IntSeries xs) = map of_int xs"
| "series_reals (FloatSeries xs) = xs"

fun series_ints :: "series \<Rightarrow> error + int list" where
  "series_ints (IntSeries xs) = Inr xs"
| "series_ints (FloatSeries xs) = Inl IndexError"

definition df_columns :: "dataframe \<Rightarrow> string list" where
  "df_columns df = map fst df"

definition df_len :: "dataframe \<Rightarrow> nat" where
  "df_len df = (case df of [] \<Rightarrow> 0 | (name, s) # rest \<Rightarrow> series_len s)"

definition df_get :: "dataframe \<Rightarrow> string \<Rightarrow> error + series" where
  "df_get df name = (case map_of df name of None \<Rightarrow> Inl (KeyError name) | Some s \<Rightarrow> Inr s)"

text \<open>
  \<^verbatim>\<open>d[k] = v\<close> on an insertion-ordered dictionary, and \<^verbatim>\<open>df[name] = s\<close> on a data
  frame: the value of an existing key is replaced in place, a new key is appended.
\<close>

fun dict_set :: "('k \<times> 'v) list \<Rightarrow> 'k \<Rightarrow> 'v \<Rightarrow> ('k \<times> 'v) list" where
  "dict_set [] name s = [(name, s)]"
| "dict_set ((k, v) # rest) name s =
     (if k = name then (k, s) # rest else (k, v) # dict_set rest name s)"

definition df_set :: "dataframe \<Rightarrow> string \<Rightarrow> series \<Rightarrow> dataframe" where
  "df_set df name s = dict_set df name s"

text \<open>A computation per element, stopped by the first exception.\<close>

fun sequence_err :: "(error + 'a) list \<Rightarrow> error + 'a list" where
  "sequence_err [] = Inr []"
| "sequence_err (m # ms) =
     (case m of Inl e \<Rightarrow> Inl e
      | Inr x \<Rightarrow> (case sequence_err ms of Inl e \<Rightarrow> Inl e | Inr xs \<Rightarrow> Inr (x # xs)))"

text \<open>
  numpy: the running sums of an array; indexing with an integer, where a negative index
  counts from the end and an index out of range raises. pandas: \<^verbatim>\<open>s.iloc[-1]\<close>.
\<close>

fun cumsum_from :: "int \<Rightarrow> int list \<Rightarrow> int list" where
  "cumsum_from acc [] = []"
| "cumsum_from acc (x # xs) = (acc + x) # cumsum_from (acc + x) xs"

definition np_cumsum :: "int list \<Rightarrow> int list" where
  "np_cumsum xs = cumsum_from 0 xs"

definition np_index :: "'a list \<Rightarrow> int \<Rightarrow> error + 'a" where
  "np_index xs i =
     (if 0 \<le> i \<and> i < int (length xs) then Inr (xs ! nat i)
      else if i < 0 \<and> - int (length xs) \<le> i then Inr (xs ! nat (int (length xs) + i))
      else Inl IndexError)"

definition iloc_last :: "'a list \<Rightarrow> error + 'a" where
  "iloc_last xs = (if xs = [] then Inl IndexError else Inr (last xs))"

subsection \<open>Strings: \<^verbatim>\<open>str.lower\<close> and \<^verbatim>\<open>in\<close>\<close>

text \<open>Lower-casing, on the ASCII letters.\<close>

definition lower_char :: "char \<Rightarrow> char" where
  "lower_char c =
     (case map_of (zip ''ABCDEFGHIJKLMNOPQRSTUVWXYZ'' ''abcdefghijklmnopqrstuvwxyz'') c of
        None \<Rightarrow> c | Some d \<Rightarrow> d)"

definition lower :: "string \<Rightarrow> string" where
  "lower s = map lower_char s"

fun starts_with :: "string \<Rightarrow> string \<Rightarrow> bool" where
  "starts_with [] s = True"
| "starts_with (a # r) [] = False"
| "starts_with (a # r) (c # s) = (a = c \<and> starts_with r s)"

text \<open>\<^verbatim>\<open>req in s\<close>: \<open>req\<close> occurs in \<open>s\<close> as a contiguous substring.\<close>

fun contains :: "string \<Rightarrow> string \<Rightarrow> bool" where
  "contains req [] = (req = [])"
| "contains req (c # s) = (starts_with req (c # s) \<or> contains req s)"

subsection \<open>component.py\<close>

text \<open>The abstract \<^verbatim>\<open>Component.investment_cost(self)\<close> raises.\<close>

definition Component_investment_cost :: "error + real" where
  "Component_investment_cost = Inl NotImplementedError"

subsection \<open>pv\_panel.py: the panel and its cost\<close>

record PVPanel =
  irradiance_data :: dataframe
  G_0 :: real
  G_N :: real
  T_0 :: real
  TC_N :: real
  Talpha_N :: real
  Beta_p :: real
  P_max :: real
  lifetime :: int
  cost :: real

text \<open>
  \<^verbatim>\<open>validate_irradiance_data\<close>: every required name is, lower-cased, among the
  lower-cased column names.
\<close>

definition validate_irradiance_data :: "dataframe \<Rightarrow> error + dataframe" where
  "validate_irradiance_data data =
     (let required_columns = [''month'', ''day'', ''hour'', ''horizontal irradiance'',
                              ''temperature'', ''solar zenith''] in
      if \<not> list_all (\<lambda>col. lower col \<in> set (map lower (df_columns data))) required_columns
      then Inl (ValueError_missing_columns required_columns)
      else Inr data)"

text \<open>\<^verbatim>\<open>PVPanel.__init__\<close>, with the defaults of the signature in \<open>PVPanel_default\<close>.\<close>

definition PVPanel_init ::
  "dataframe \<Rightarrow> real \<Rightarrow> real \<Rightarrow> real \<Rightarrow> real \<Rightarrow> real \<Rightarrow> real \<Rightarrow> real \<Rightarrow> int \<Rightarrow> real \<Rightarrow> error + PVPanel"
where
  "PVPanel_init data g0 gn t0 tcn talpha beta pmax life c =
     bind_err (validate_irradiance_data data) (\<lambda>d. Inr
       \<lparr>irradiance_data = d, G_0 = g0, G_N = gn, T_0 = t0, TC_N = tcn, Talpha_N = talpha,
        Beta_p = beta, P_max = pmax, lifetime = life, cost = c\<rparr>)"

definition PVPanel_default :: "dataframe \<Rightarrow> error + PVPanel" where
  "PVPanel_default data = PVPanel_init data 1000 800 25 43 25 (- 0.34 * (1 / 100)) 555 25 750"

text \<open>
  \<^verbatim>\<open>calculate_investment_cost(self, interest_rate)\<close>, lines 94 to 109: the check of
  the open interval, then the annuity formula.
\<close>

definition calculate_investment_cost :: "PVPanel \<Rightarrow> real \<Rightarrow> error + real" where
  "calculate_investment_cost self interest_rate =
     (if \<not> (0 < interest_rate \<and> interest_rate < 1) then Inl ValueError_interest_rate
      else bind_err (py_pow (1 + interest_rate) (- PVPanel.lifetime self)) (\<lambda>p.
             py_truediv (PVPanel.cost self * interest_rate) (1 - p)))"

text \<open>
  The class defines no \<^verbatim>\<open>investment_cost\<close>: the attribute is found in the base class
  \<^verbatim>\<open>Component\<close>.
\<close>

definition PVPanel_investment_cost :: "PVPanel \<Rightarrow> error + real" where
  "PVPanel_investment_cost self = Component_investment_cost"

text \<open>
  Reading a numeric attribute of a panel by name. The numeric instance attributes are
  those \<^verbatim>\<open>__init__\<close> assigns (lines 26 to 35) and the setters reassign (the frame
  \<^verbatim>\<open>irradiance_data\<close> is read as a field); the class has no attribute of another
  name but its methods, and reading a name that is not there raises
  \<^verbatim>\<open>AttributeError\<close>.
\<close>

definition PVPanel_getattr :: "PVPanel \<Rightarrow> string \<Rightarrow> error + real" where
  "PVPanel_getattr self name =
     (case map_of [(''G_0'', G_0 self), (''G_N'', G_N self), (''T_0'', T_0 self),
                   (''TC_N'', TC_N self), (''Talpha_N'', Talpha_N self),
                   (''Beta_p'', Beta_p self), (''P_max'', P_max self),
                   (''lifetime'', of_int (PVPanel.lifetime self)),
                   (''cost'', PVPanel.cost self)] name of
        None \<Rightarrow> Inl (AttributeError name)
      | Some v \<Rightarrow> Inr v)"

text \<open>
  \<^verbatim>\<open>calculate_power_output(self)\<close>, lines 114 to 137, in the order Python evaluates it:
  the check for the irradiance column, the two columns, \<^verbatim>\<open>self.TCN\<close>,
  \<^verbatim>\<open>self.Talpha_N\<close> and \<^verbatim>\<open>self.G_N\<close> of line 129, the cell temperature, and line 132
  with \<^verbatim>\<open>self.P_max\<close>, \<^verbatim>\<open>self.G_0\<close>, \<^verbatim>\<open>self.b_p\<close> and \<^verbatim>\<open>self.T_0\<close>. It returns the
  panel, whose data frame has the new column.
\<close>

definition calculate_power_output :: "PVPanel \<Rightarrow> error + PVPanel" where
  "calculate_power_output self =
     (let df = irradiance_data self in
      if ''Calculated_Irradiance'' \<notin> set (df_columns df) then Inl ValueError_irradiance_first
      else
        bind_err (df_get df ''Calculated_Irradiance'') (\<lambda>irradiance.
        bind_err (df_get df ''Temperature'') (\<lambda>temperature.
        bind_err (PVPanel_getattr self ''TCN'') (\<lambda>tcn.
        bind_err (PVPanel_getattr self ''Talpha_N'') (\<lambda>talpha_n.
        bind_err (PVPanel_getattr self ''G_N'') (\<lambda>g_n.
        bind_err (py_truediv (tcn - talpha_n) g_n) (\<lambda>temp_coeff.
        let temp_cell = map (\<lambda>(i, t). temp_coeff * i + t)
                          (zip (series_reals irradiance) (series_reals temperature)) in
        bind_err (PVPanel_getattr self ''P_max'') (\<lambda>p_max.
        bind_err (PVPanel_getattr self ''G_0'') (\<lambda>g_0.
        bind_err (PVPanel_getattr self ''b_p'') (\<lambda>b_p.
        bind_err (PVPanel_getattr self ''T_0'') (\<lambda>t_0.
        let P_panel = map (\<lambda>(i, tc). p_max * (i / g_0) * (1 + b_p * (tc - t_0)))
                        (zip (series_reals irradiance) temp_cell) in
        Inr (self\<lparr>irradiance_data := df_set df ''Power_Output'' (FloatSeries P_panel)\<rparr>)
        )))))))))))"

text \<open>
  \<^verbatim>\<open>calculate_irradiance_vector\<close>, lines 224 to 236: the dictionary of the required
  names, all \<^verbatim>\<open>None\<close> at first, and the two nested loops, over the columns of the frame
  and, for each, over the keys; a key contained in the lower-cased column name is
  assigned that column.
\<close>

definition required_names :: "string list" where
  "required_names = [''month'', ''day'', ''hour'', ''horizontal irradiance'',
                     ''temperature'', ''solar zenith'']"

definition resolve_column ::
  "string \<Rightarrow> (string \<times> string option) list \<Rightarrow> (string \<times> string option) list" where
  "resolve_column col required_columns =
     fold (\<lambda>req rc. if contains req (lower col) then dict_set rc req (Some col) else rc)
          (map fst required_columns) required_columns"

definition resolve_columns :: "string list \<Rightarrow> (string \<times> string option) list" where
  "resolve_columns columns =
     fold resolve_column columns (map (\<lambda>req. (req, None)) required_names)"

text \<open>Lines 238 to 240: the keys still \<^verbatim>\<open>None\<close>, in the order of the dictionary.\<close>

definition check_required ::
  "(string \<times> string option) list \<Rightarrow> error + (string \<times> string option) list" where
  "check_required required_columns =
     (if None \<in> set (map snd required_columns)
      then Inl (ValueError_missing_columns
                  (map fst (filter (\<lambda>(key, val). val = None) required_columns)))
      else Inr required_columns)"

text \<open>\<^verbatim>\<open>self.irradiance_data[required_columns[req]]\<close>.\<close>

definition required_series ::
  "dataframe \<Rightarrow> (string \<times> string option) list \<Rightarrow> string \<Rightarrow> error + series" where
  "required_series df required_columns req =
     (case map_of required_columns req of
        Some (Some col) \<Rightarrow> df_get df col
      | _ \<Rightarrow> Inl (KeyError req))"

text \<open>
  Lines 249 to 259. \<^verbatim>\<open>year_days\<close> adds the day of the last row to the running sum of
  the month lengths at the index of the last row's month, where February counts 29 days
  for more than 8760 rows; it selects the month lengths, by comparison with 366. The day
  of the year of each row is its day plus the days of the months before its month.
\<close>

definition year_days :: "nat \<Rightarrow> real \<Rightarrow> int \<Rightarrow> error + real" where
  "year_days n last_day last_month =
     bind_err (np_index (np_cumsum [31, (if n > 8760 then 29 else 28), 31, 30, 31, 30, 31,
                                    31, 30, 31, 30, 31]) (last_month - 1))
       (\<lambda>c. Inr (last_day + of_int c - 1))"

definition DY_per_MO :: "real \<Rightarrow> int list" where
  "DY_per_MO yd =
     (if yd = 366 then [31, 29, 31, 30, 31, 30, 31, 31, 30, 31, 30, 31]
      else [31, 28, 31, 30, 31, 30, 31, 31, 30, 31, 30, 31])"

definition cum_days :: "int list \<Rightarrow> int list" where
  "cum_days dy = map (\<lambda>(c, d). c - d) (zip (np_cumsum dy) dy)"

definition day_of_year :: "nat \<Rightarrow> int list \<Rightarrow> real list \<Rightarrow> error + real list" where
  "day_of_year n month day =
     bind_err (iloc_last day) (\<lambda>last_day.
     bind_err (iloc_last month) (\<lambda>last_month.
     bind_err (year_days n last_day last_month) (\<lambda>yd.
     bind_err (sequence_err (map (\<lambda>m. np_index (cum_days (DY_per_MO yd)) (m - 1)) month))
       (\<lambda>offsets. Inr (map (\<lambda>(d, c). d + of_int c) (zip day offsets))))))"

text \<open>
  The whole method: the resolution, the five columns, the day of the year, the HDKR model
  on every row with the default site, and the new column.
\<close>

definition calculate_irradiance_vector :: "PVPanel \<Rightarrow> error + PVPanel" where
  "calculate_irradiance_vector self =
     (let df = irradiance_data self in
      bind_err (check_required (resolve_columns (df_columns df))) (\<lambda>rc.
      bind_err (required_series df rc ''month'') (\<lambda>month.
      bind_err (required_series df rc ''day'') (\<lambda>day.
      bind_err (required_series df rc ''hour'') (\<lambda>hour.
      bind_err (required_series df rc ''horizontal irradiance'') (\<lambda>horizontal_irradiance.
      bind_err (required_series df rc ''solar zenith'') (\<lambda>solar_zenith.
      bind_err (series_ints month) (\<lambda>month_ints.
      bind_err (day_of_year (df_len df) month_ints (series_reals day)) (\<lambda>doy.
      let irradiance =
            map (\<lambda>(d, h, ghr, sza).
                   radiation_slope_surface d h ghr sza 33.9009 35.4811 2 None 0 0.6)
                (zip doy (zip (series_reals hour)
                   (zip (series_reals horizontal_irradiance) (series_reals solar_zenith))))
      in Inr (self\<lparr>irradiance_data :=
                     df_set df ''Calculated_Irradiance'' (FloatSeries irradiance)\<rparr>)
      )))))))))"

subsection \<open>diesel\_gen.py\<close>

text \<open>
  The generator; \<^verbatim>\<open>_min_power_percentage\<close> is the attribute that exists only while the
  minimum power was given as a fraction of the capacity.
\<close>

record DieselGen =
  capacity :: real
  minimum_power :: real
  min_power_percentage :: "real option"
  cost_per_kwh :: real
  lifetime :: int
  initial_cost :: real
  annual_om_cost :: real

text \<open>\<^verbatim>\<open>DieselGen.investment_cost(self, newly_installed)\<close>, lines 28 to 42.\<close>

definition DieselGen_investment_cost :: "DieselGen \<Rightarrow> bool \<Rightarrow> error + real" where
  "DieselGen_investment_cost self newly_installed =
     (if newly_installed
      then bind_err (py_truediv (initial_cost self) (of_int (DieselGen.lifetime self)))
             (\<lambda>annual_investment_cost. Inr (annual_investment_cost + annual_om_cost self))
      else Inr (annual_om_cost self))"

subsection \<open>battery.py\<close>

record Battery =
  SOC_min :: real
  SOC_max :: real
  SOC_init :: real
  eff_ch :: real
  eff_disch :: real
  capacity :: pynum
  min_charging_time :: pynum
  P_B_max :: pyfloat
  lifetime :: int
  cost :: real

text \<open>
  \<^verbatim>\<open>Battery.__init__\<close>. The capacity and the charging time are numbers as the caller
  passes them, ints or floats; the division of line 33 may raise.
\<close>

definition Battery_init ::
  "real \<Rightarrow> real \<Rightarrow> real \<Rightarrow> real \<Rightarrow> real \<Rightarrow> pynum \<Rightarrow> pynum \<Rightarrow> int \<Rightarrow> real \<Rightarrow> error + Battery"
where
  "Battery_init smin smax sinit ech edisch cap mct life c =
     bind_err (py_truediv_num cap mct) (\<lambda>p. Inr
       \<lparr>SOC_min = smin, SOC_max = smax, SOC_init = sinit, eff_ch = ech, eff_disch = edisch,
        capacity = cap, min_charging_time = mct, P_B_max = p, lifetime = life, cost = c\<rparr>)"

definition Battery_default :: "error + Battery" where
  "Battery_default =
     Battery_init 0.2 0.9 0.5 0.95 0.95 (PyFloat (Finite 100)) (PyFloat (Finite 4)) 10 10000"

text \<open>\<^verbatim>\<open>Battery.investment_cost(self, interest_rate)\<close>, lines 37 to 44: the formula alone.\<close>

definition Battery_investment_cost :: "Battery \<Rightarrow> real \<Rightarrow> error + real" where
  "Battery_investment_cost self interest_rate =
     bind_err (py_pow (1 + interest_rate) (- Battery.lifetime self)) (\<lambda>p.
       py_truediv (Battery.cost self * interest_rate) (1 - p))"

text \<open>
  The setters. A setter assigns its field first; the two that recompute \<^verbatim>\<open>P_B_max\<close>
  then divide, and a raising division leaves the assignment done. They return the
  object after the call and the exception, if one was raised.
\<close>

definition set_SOC_min :: "Battery \<Rightarrow> real \<Rightarrow> Battery \<times> error option" where
  "set_SOC_min self v = (self\<lparr>SOC_min := v\<rparr>, None)"

definition set_SOC_max :: "Battery \<Rightarrow> real \<Rightarrow> Battery \<times> error option" where
  "set_SOC_max self v = (self\<lparr>SOC_max := v\<rparr>, None)"

definition set_SOC_init :: "Battery \<Rightarrow> real \<Rightarrow> Battery \<times> error option" where
  "set_SOC_init self v = (self\<lparr>SOC_init := v\<rparr>, None)"

definition set_eff_ch :: "Battery \<Rightarrow> real \<Rightarrow> Battery \<times> error option" where
  "set_eff_ch self v = (self\<lparr>eff_ch := v\<rparr>, None)"

definition set_eff_disch :: "Battery \<Rightarrow> real \<Rightarrow> Battery \<times> error option" where
  "set_eff_disch self v = (self\<lparr>eff_disch := v\<rparr>, None)"

definition set_capacity :: "Battery \<Rightarrow> pynum \<Rightarrow> Battery \<times> error option" where
  "set_capacity self v =
     (let self1 = self\<lparr>capacity := v\<rparr> in
      case py_truediv_num (capacity self1) (min_charging_time self1) of
        Inl e \<Rightarrow> (self1, Some e)
      | Inr p \<Rightarrow> (self1\<lparr>P_B_max := p\<rparr>, None))"

definition set_min_charging_time :: "Battery \<Rightarrow> pynum \<Rightarrow> Battery \<times> error option" where
  "set_min_charging_time self v =
     (let self1 = self\<lparr>min_charging_time := v\<rparr> in
      case py_truediv_num (capacity self1) (min_charging_time self1) of
        Inl e \<Rightarrow> (self1, Some e)
      | Inr p \<Rightarrow> (self1\<lparr>P_B_max := p\<rparr>, None))"

definition set_lifetime :: "Battery \<Rightarrow> int \<Rightarrow> Battery \<times> error option" where
  "set_lifetime self v = (self\<lparr>lifetime := v\<rparr>, None)"

definition set_cost :: "Battery \<Rightarrow> real \<Rightarrow> Battery \<times> error option" where
  "set_cost self v = (self\<lparr>cost := v\<rparr>, None)"


subsection \<open>grid.py\<close>

record Grid =
  grid_data :: dataframe

text \<open>\<^verbatim>\<open>validate_grid_data\<close>: the five column names, exactly.\<close>

definition validate_grid_data :: "dataframe \<Rightarrow> error + dataframe" where
  "validate_grid_data data =
     (let required_columns = [''month'', ''day'', ''hour'', ''tariff'', ''status''];
          missing_columns = filter (\<lambda>col. col \<notin> set (df_columns data)) required_columns
      in if missing_columns \<noteq> [] then Inl (ValueError_missing_columns missing_columns)
         else Inr data)"

definition Grid_init :: "dataframe \<Rightarrow> error + Grid" where
  "Grid_init data = bind_err (validate_grid_data data) (\<lambda>d. Inr \<lparr>grid_data = d\<rparr>)"

text \<open>
  \<^verbatim>\<open>get_grid_status_and_tariff(self, month, day, hour)\<close>, lines 25 to 43: the rows
  selected by the three comparisons, in the order of the frame; \<^verbatim>\<open>(None, None)\<close> when
  there is none, the status and the tariff of the first otherwise.
\<close>

definition get_grid_status_and_tariff ::
  "Grid \<Rightarrow> real \<Rightarrow> real \<Rightarrow> real \<Rightarrow> error + (real option \<times> real option)" where
  "get_grid_status_and_tariff self m d h =
     (let df = grid_data self in
      bind_err (df_get df ''month'') (\<lambda>months.
      bind_err (df_get df ''day'') (\<lambda>days.
      bind_err (df_get df ''hour'') (\<lambda>hours.
      let record = filter (\<lambda>i. series_reals months ! i = m \<and> series_reals days ! i = d \<and>
                               series_reals hours ! i = h) [0..<df_len df]
      in if record = [] then Inr (None, None)
         else
           bind_err (df_get df ''status'') (\<lambda>statuses.
           bind_err (df_get df ''tariff'') (\<lambda>tariffs.
           Inr (Some (series_reals statuses ! hd record),
                Some (series_reals tariffs ! hd record))))))))"

text \<open>
  \<^verbatim>\<open>Grid.calculate_investment_cost(self)\<close> returns 0. The class defines no
  \<^verbatim>\<open>investment_cost\<close>: the attribute is found in the base class.
\<close>

definition Grid_calculate_investment_cost :: "Grid \<Rightarrow> error + real" where
  "Grid_calculate_investment_cost self = Inr 0"

definition Grid_investment_cost :: "Grid \<Rightarrow> error + real" where
  "Grid_investment_cost self = Component_investment_cost"

subsection \<open>load.py\<close>

record Load =
  load_data :: dataframe

definition Load_investment_cost :: "Load \<Rightarrow> error + real" where
  "Load_investment_cost self = Inr 0"

subsection \<open>hybrid\_energy\_system.py\<close>

record HybridEnergySystem =
  pv :: PVPanel
  battery :: Battery
  diesel_gen :: DieselGen
  grid :: Grid
  load :: Load

text \<open>
  \<^verbatim>\<open>total_investment_cost(self)\<close>, lines 35 to 39: five calls of
  \<^verbatim>\<open>investment_cost()\<close>, each without an argument, evaluated and added from left to
  right.
\<close>

definition total_investment_cost :: "HybridEnergySystem \<Rightarrow> error + real" where
  "total_investment_cost self =
     bind_err (PVPanel_investment_cost (pv self)) (\<lambda>c_pv.
     bind_err (call1 (Battery_investment_cost (battery self)) []) (\<lambda>c_battery.
     bind_err (call1 (DieselGen_investment_cost (diesel_gen self)) []) (\<lambda>c_diesel.
     bind_err (Grid_investment_cost (grid self)) (\<lambda>c_grid.
     bind_err (Load_investment_cost (load self)) (\<lambda>c_load.
     Inr (c_pv + c_battery + c_diesel + c_grid + c_load))))))"

subsection \<open>Example objects and notions of the statements\<close>

text \<open>A panel and a battery with the default parameters of their constructors.\<close>

definition example_panel :: PVPanel where
  "example_panel =
     \<lparr>irradiance_data = [], G_0 = 1000, G_N = 800, T_0 = 25, TC_N = 43, Talpha_N = 25,
      Beta_p = - 0.34 * (1 / 100), P_max = 555, lifetime = 25, cost = 750\<rparr>"

definition example_battery :: Battery where
  "example_battery =
     \<lparr>SOC_min = 0.2, SOC_max = 0.9, SOC_init = 0.5, eff_ch = 0.95, eff_disch = 0.95,
      capacity = PyFloat (Finite 100), min_charging_time = PyFloat (Finite 4),
      P_B_max = Finite 25, lifetime = 10, cost = 10000\<rparr>"

text \<open>
  A frame of two hourly rows that passes the panel's validation and has the irradiance
  column, and a grid frame of four rows, two of them for the same hour.
\<close>

definition example_frame :: dataframe where
  "example_frame =
     [(''Month'', IntSeries [6, 6]), (''Day'', IntSeries [21, 21]), (''Hour'', IntSeries [0, 12]),
      (''Horizontal Irradiance'', FloatSeries [0, 900]),
      (''Temperature'', FloatSeries [18, 29]), (''Solar Zenith'', FloatSeries [120, 12.5]),
      (''Calculated_Irradiance'', FloatSeries [0, 870])]"

definition example_grid_frame :: dataframe where
  "example_grid_frame =
     [(''month'', IntSeries [1, 1, 1, 1]), (''day'', IntSeries [1, 1, 1, 2]),
      (''hour'', IntSeries [0, 1, 1, 0]),
      (''tariff'', FloatSeries [0.10, 0.12, 0.15, 0.10]), (''status'', IntSeries [1, 0, 1, 1])]"

text \<open>Row \<open>i\<close> of the three time columns is the triple looked up.\<close>

definition row_matches :: "series \<Rightarrow> series \<Rightarrow> series \<Rightarrow> real \<Rightarrow> real \<Rightarrow> real \<Rightarrow> nat \<Rightarrow> bool" where
  "row_matches months days hours m d h i =
     (series_reals months ! i = m \<and> series_reals days ! i = d \<and> series_reals hours ! i = h)"

text \<open>
  The month and day columns of an hourly data set of a leap year: 24 rows for each day,
  from January 1 to December 31, 8784 rows.
\<close>

definition month_block :: "int \<Rightarrow> nat \<Rightarrow> int list" where
  "month_block m n = replicate (24 * n) m"

definition day_block :: "nat \<Rightarrow> real list" where
  "day_block n = concat (map (\<lambda>d. replicate 24 (real d)) [1..<Suc n])"

definition leap_year_months :: "int list" where
  "leap_year_months =
     month_block 1 31 @ month_block 2 29 @ month_block 3 31 @ month_block 4 30 @
     month_block 5 31 @ month_block 6 30 @ month_block 7 31 @ month_block 8 31 @
     month_block 9 30 @ month_block 10 31 @ month_block 11 30 @ month_block 12 31"

definition leap_year_days :: "real list" where
  "leap_year_days =
     day_block 31 @ day_block 29 @ day_block 31 @ day_block 30 @ day_block 31 @
     day_block 30 @ day_block 31 @ day_block 31 @ day_block 30 @ day_block 31 @
     day_block 30 @ day_block 31"

text \<open>The days before each month in a year of 365 days.\<close>

definition common_year_offsets :: "int list" where
  "common_year_offsets = [0, 31, 59, 90, 120, 151, 181, 212, 243, 273, 304, 334]"

text \<open>
  Two frames of one row: one that passes the panel's validation and has a further column
  \<^verbatim>\<open>Weekday\<close>, one without a solar zenith column.
\<close>

definition weekday_frame :: dataframe where
  "weekday_frame =
     [(''Month'', IntSeries [6]), (''Day'', IntSeries [21]), (''Hour'', IntSeries [12]),
      (''Horizontal Irradiance'', FloatSeries [900]), (''Temperature'', FloatSeries [29]),
      (''Solar Zenith'', FloatSeries [12.5]), (''Weekday'', IntSeries [5])]"

definition no_zenith_frame :: dataframe where
  "no_zenith_frame =
     [(''Month'', IntSeries [6]), (''Day'', IntSeries [21]), (''Hour'', IntSeries [12]),
      (''Horizontal Irradiance'', FloatSeries [900]), (''Temperature'', FloatSeries [29])]"

text \<open>
  The relation between the three fields of a battery: the Python expression
  \<^verbatim>\<open>capacity / min_charging_time\<close> evaluates, \<open>P_B_max_is_quotient\<close> to the very float
  that \<^verbatim>\<open>P_B_max\<close> holds, \<open>P_B_max_invariant\<close> to a float that \<^verbatim>\<open>==\<close> finds equal
  to it.
\<close>

definition P_B_max_is_quotient :: "Battery \<Rightarrow> bool" where
  "P_B_max_is_quotient b =
     (py_truediv_num (Battery.capacity b) (min_charging_time b) = Inr (P_B_max b))"

definition P_B_max_invariant :: "Battery \<Rightarrow> bool" where
  "P_B_max_invariant b =
     (case py_truediv_num (Battery.capacity b) (min_charging_time b) of
        Inl e \<Rightarrow> False
      | Inr q \<Rightarrow> float_eq (P_B_max b) q)"

section \<open>Theorems\<close>

subsection \<open>Diffuse fraction\<close>

text \<open>
  C1. In every call of \<^verbatim>\<open>radiation_slope_surface\<close> that passes the early return, the
  clearness index is \<open>kt = G / (solar_radiation * cos zenith)\<close> and the radiation on the
  slope is computed from the diffuse fraction \<open>Ro_d kt\<close>; that fraction is assigned
  by the first branch, \<open>1 - 0.249 * kt\<close>, when \<open>kt \<le> 0.35\<close>, by the constant branch, exactly
  \<open>0.177\<close>, when \<open>kt > 0.75\<close>, and by the linear branch, \<open>1.557 - 1.84 * kt\<close>, when
  \<open>0.35 < kt \<le> 0.75\<close>; the boundary \<open>kt = 0.35\<close> takes the first branch, and \<open>kt = 0.75\<close>
  the linear branch, not the constant one. (Over the reals the two have the same value at
  0.75; the branch taken is the linear one.)
\<close>

theorem Ro_d_branches:
  fixes kt day time G z longitude latitude tz azim rho :: real
  shows "(kt \<le> 0.35 \<longrightarrow> Ro_d_branch kt = (First_branch, 1 - 0.249 * kt))
       \<and> (kt > 0.75 \<longrightarrow> Ro_d_branch kt = (Constant_branch, 0.177))
       \<and> (0.35 < kt \<and> kt \<le> 0.75 \<longrightarrow> Ro_d_branch kt = (Linear_branch, 1.557 - 1.84 * kt))
       \<and> Ro_d_branch 0.35 = (First_branch, 1 - 0.249 * 0.35)
       \<and> Ro_d_branch 0.75 = (Linear_branch, 1.557 - 1.84 * 0.75)
       \<and> fst (Ro_d_branch 0.75) \<noteq> Constant_branch
       \<and> Ro_d kt = snd (Ro_d_branch kt)
       \<and> clearness_index day G z
           = G / (solar_radiation ((day - 1) * (360 / 365)) * cos (radians z))
       \<and> (G \<noteq> 0 \<and> 0 \<le> z \<longrightarrow>
            radiation_slope_surface day time G z longitude latitude tz tilt azim rho
            = hdkr_radiation day time G z longitude latitude tz
                (case tilt of None \<Rightarrow> latitude | Some a \<Rightarrow> a) azim rho
                (snd (Ro_d_branch
                   (G / (solar_radiation ((day - 1) * (360 / 365)) * cos (radians z))))))"
  by (simp add: Ro_d_branch_def Ro_d_def clearness_index_def radiation_slope_surface_def)

theorem Ro_d_branches_witness:
  "((0.2::real) \<le> 0.35 \<and> Ro_d_branch 0.2 = (First_branch, 1 - 0.249 * 0.2))
   \<and> ((0.8::real) > 0.75 \<and> Ro_d_branch 0.8 = (Constant_branch, 0.177))
   \<and> ((0.35::real) < 0.5 \<and> (0.5::real) \<le> 0.75
        \<and> Ro_d_branch 0.5 = (Linear_branch, 1.557 - 1.84 * 0.5))
   \<and> ((900::real) \<noteq> 0 \<and> (0::real) \<le> 30
        \<and> radiation_slope_surface 172 12 900 30 33.9009 35.4811 2 None 0 0.6
           = hdkr_radiation 172 12 900 30 33.9009 35.4811 2 35.4811 0 0.6
               (snd (Ro_d_branch
                  (900 / (solar_radiation ((172 - 1) * (360 / 365)) * cos (radians 30))))))"
  using Ro_d_branches [of "0.2" 172 900 30 12 "33.9009" "35.4811" 2 None 0 "0.6"]
    Ro_d_branches [of "0.8" 172 900 30 12 "33.9009" "35.4811" 2 None 0 "0.6"]
    Ro_d_branches [of "0.5" 172 900 30 12 "33.9009" "35.4811" 2 None 0 "0.6"]
  by simp

subsection \<open>Night and invalid readings\<close>

text \<open>
  C2. If the horizontal irradiance is 0 or the solar zenith is negative,
  \<^verbatim>\<open>radiation_slope_surface\<close> returns exactly 0 whatever the other arguments are: the
  early return precedes the geometry, and the function has no raising branch.
\<close>

theorem radiation_slope_surface_zero:
  "G = 0 \<or> z < 0 \<Longrightarrow>
     radiation_slope_surface day time G z longitude latitude tz tilt azim rho = 0"
  by (simp add: radiation_slope_surface_def)

theorem radiation_slope_surface_zero_witness:
  "((0::real) = 0 \<or> (30::real) < 0)
   \<and> radiation_slope_surface 172 12 0 30 33.9009 35.4811 2 None 0 0.6 = 0
   \<and> ((500::real) = 0 \<or> (- 5::real) < 0)
   \<and> radiation_slope_surface 172 12 500 (- 5) 33.9009 35.4811 2 (Some 20) 0 0.6 = 0"
  using radiation_slope_surface_zero [of 0 30 172 12 "33.9009" "35.4811" 2 None 0 "0.6"]
    radiation_slope_surface_zero [of 500 "- 5" 172 12 "33.9009" "35.4811" 2 "Some 20" 0 "0.6"]
  by simp

subsection \<open>Validation of the interest rate\<close>

lemma Battery_default_example: "Battery_default = Inr example_battery"
  by (simp add: Battery_default_def Battery_init_def bind_err_def dbl_overflow_def
      example_battery_def)

text \<open>
  C4. The claim: every annuity-convention component (panel and battery) rejects an
  interest rate outside the open interval \<open>(0, 1)\<close> with a validation error. The panel does
  (line 103); the battery's method has no check. Evaluated on the default battery: the
  rate 1 returns \<open>10000 / (1 - 2 ^ (- 10))\<close>, a negative rate returns a value, and the rate
  0 raises \<^verbatim>\<open>ZeroDivisionError\<close> from the division, not a validation error.
\<close>

theorem Battery_investment_cost_unvalidated:
  "Battery_default = Inr example_battery
   \<and> Battery_investment_cost example_battery 1 = Inr (10240000 / 1023)
   \<and> Battery_investment_cost example_battery 0 = Inl ZeroDivisionError
   \<and> Battery_investment_cost example_battery (- 1 / 2) = Inr (5000 / 1023)
   \<and> calculate_investment_cost example_panel 1 = Inl ValueError_interest_rate
   \<and> calculate_investment_cost example_panel 0 = Inl ValueError_interest_rate"
  by (simp add: Battery_default_example Battery_investment_cost_def
      calculate_investment_cost_def example_battery_def example_panel_def
      py_pow_def py_truediv_def bind_err_def power_int_minus power_divide)

subsection \<open>The battery's maximum power\<close>

lemma huge_int_overflows: "dbl_overflow (of_int (10 ^ 400))"
  by (simp add: dbl_overflow_def)

text \<open>
  C10, as stated: after construction and after every call of \<^verbatim>\<open>set_capacity\<close> or
  \<^verbatim>\<open>set_min_charging_time\<close>, \<^verbatim>\<open>P_B_max\<close> is \<^verbatim>\<open>capacity / min_charging_time\<close>.
  It fails for a call that raises, since the setters assign before they divide:
  \<^verbatim>\<open>set_min_charging_time(0.0)\<close> on the default battery stores 0 (line 99), the
  division of line 100 raises \<^verbatim>\<open>ZeroDivisionError\<close>, and the object keeps
  \<^verbatim>\<open>P_B_max = 25\<close> beside a charging time of 0; \<^verbatim>\<open>set_capacity(10 ** 400)\<close> stores
  the int, the division raises \<^verbatim>\<open>OverflowError\<close>, and \<^verbatim>\<open>P_B_max\<close> is still 25. It
  also fails for a call that returns with nan: after \<^verbatim>\<open>set_capacity(float('nan'))\<close>
  \<^verbatim>\<open>P_B_max\<close> is nan, which is equal to nothing.
\<close>

theorem P_B_max_stale_counterexample:
  "\<not> P_B_max_invariant (fst (set_min_charging_time example_battery (PyFloat (Finite 0))))
   \<and> snd (set_min_charging_time example_battery (PyFloat (Finite 0))) = Some ZeroDivisionError
   \<and> P_B_max (fst (set_min_charging_time example_battery (PyFloat (Finite 0)))) = Finite 25
   \<and> \<not> P_B_max_invariant (fst (set_capacity example_battery (PyInt (10 ^ 400))))
   \<and> snd (set_capacity example_battery (PyInt (10 ^ 400))) = Some OverflowError
   \<and> P_B_max (fst (set_capacity example_battery (PyInt (10 ^ 400)))) = Finite 25
   \<and> snd (set_capacity example_battery (PyFloat NaN)) = None
   \<and> \<not> P_B_max_invariant (fst (set_capacity example_battery (PyFloat NaN)))"
  using huge_int_overflows
  by (simp add: P_B_max_invariant_def set_min_charging_time_def set_capacity_def
      example_battery_def bind_err_def float_eq_def)

text \<open>
  C10, amended: after a construction that returns, and after every call of
  \<^verbatim>\<open>set_capacity\<close> or \<^verbatim>\<open>set_min_charging_time\<close> that returns normally, the new value
  is stored and \<^verbatim>\<open>P_B_max\<close> holds the float that \<^verbatim>\<open>capacity / min_charging_time\<close>
  evaluates to, and is equal to it unless it is nan; no other setter changes
  \<^verbatim>\<open>P_B_max\<close> (the getters and \<^verbatim>\<open>investment_cost\<close> assign nothing).
\<close>

theorem P_B_max_invariant_normal_calls:
  "(Battery_init smin smax sinit ech edisch cap mct life c = Inr b \<longrightarrow>
      P_B_max_is_quotient b \<and> (P_B_max b \<noteq> NaN \<longrightarrow> P_B_max_invariant b))
   \<and> (set_capacity b0 v = (b1, None) \<longrightarrow>
      Battery.capacity b1 = v \<and> P_B_max_is_quotient b1
      \<and> (P_B_max b1 \<noteq> NaN \<longrightarrow> P_B_max_invariant b1))
   \<and> (set_min_charging_time b0 v = (b2, None) \<longrightarrow>
      min_charging_time b2 = v \<and> P_B_max_is_quotient b2
      \<and> (P_B_max b2 \<noteq> NaN \<longrightarrow> P_B_max_invariant b2))
   \<and> P_B_max (fst (set_SOC_min b0 x)) = P_B_max b0
   \<and> P_B_max (fst (set_SOC_max b0 x)) = P_B_max b0
   \<and> P_B_max (fst (set_SOC_init b0 x)) = P_B_max b0
   \<and> P_B_max (fst (set_eff_ch b0 x)) = P_B_max b0
   \<and> P_B_max (fst (set_eff_disch b0 x)) = P_B_max b0
   \<and> P_B_max (fst (set_lifetime b0 l)) = P_B_max b0
   \<and> P_B_max (fst (set_cost b0 x)) = P_B_max b0"
  by (auto simp: P_B_max_invariant_def P_B_max_is_quotient_def Battery_init_def
      set_capacity_def set_min_charging_time_def set_SOC_min_def set_SOC_max_def
      set_SOC_init_def set_eff_ch_def set_eff_disch_def set_lifetime_def set_cost_def
      bind_err_def float_eq_def Let_def split: sum.splits)

theorem P_B_max_invariant_normal_calls_witness:
  "Battery_init 0.2 0.9 0.5 0.95 0.95 (PyFloat (Finite 100)) (PyFloat (Finite 4)) 10 10000
     = Inr example_battery
   \<and> P_B_max example_battery \<noteq> NaN \<and> P_B_max_invariant example_battery
   \<and> set_capacity example_battery (PyInt 200)
       = (example_battery\<lparr>capacity := PyInt 200, P_B_max := Finite 50\<rparr>, None)
   \<and> P_B_max_invariant (example_battery\<lparr>capacity := PyInt 200, P_B_max := Finite 50\<rparr>)
   \<and> set_min_charging_time example_battery (PyFloat (Finite 5))
       = (example_battery\<lparr>min_charging_time := PyFloat (Finite 5), P_B_max := Finite 20\<rparr>,
          None)
   \<and> P_B_max_invariant
        (example_battery\<lparr>min_charging_time := PyFloat (Finite 5), P_B_max := Finite 20\<rparr>)"
proof -
  have i: "Battery_init 0.2 0.9 0.5 0.95 0.95 (PyFloat (Finite 100)) (PyFloat (Finite 4))
             10 10000 = Inr example_battery"
    using Battery_default_example by (simp add: Battery_default_def)
  have c: "set_capacity example_battery (PyInt 200)
           = (example_battery\<lparr>capacity := PyInt 200, P_B_max := Finite 50\<rparr>, None)"
    by (simp add: set_capacity_def example_battery_def bind_err_def dbl_overflow_def)
  have m: "set_min_charging_time example_battery (PyFloat (Finite 5))
           = (example_battery\<lparr>min_charging_time := PyFloat (Finite 5), P_B_max := Finite 20\<rparr>,
              None)"
    by (simp add: set_min_charging_time_def example_battery_def bind_err_def dbl_overflow_def)
  have n: "P_B_max example_battery \<noteq> NaN" by (simp add: example_battery_def)
  from i c m n
    P_B_max_invariant_normal_calls [of "0.2" "0.9" "0.5" "0.95" "0.95" "PyFloat (Finite 100)"
      "PyFloat (Finite 4)" 10 10000 example_battery example_battery "PyInt 200"
      "example_battery\<lparr>capacity := PyInt 200, P_B_max := Finite 50\<rparr>"]
    P_B_max_invariant_normal_calls [of "0.2" "0.9" "0.5" "0.95" "0.95" "PyFloat (Finite 100)"
      "PyFloat (Finite 4)" 10 10000 example_battery example_battery "PyFloat (Finite 5)" _
      "example_battery\<lparr>min_charging_time := PyFloat (Finite 5), P_B_max := Finite 20\<rparr>"]
  show ?thesis by simp
qed

subsection \<open>Panel power output\<close>

lemma df_get_Some: "map_of df name = Some s \<Longrightarrow> df_get df name = Inr s"
  by (simp add: df_get_def)

lemma column_present: "map_of df name = Some s \<Longrightarrow> name \<in> set (df_columns df)"
  by (auto simp: df_columns_def dest: map_of_SomeD intro: rev_image_eqI)

text \<open>
  C5. The claim: on a panel whose frame has the columns \<^verbatim>\<open>Calculated_Irradiance\<close> and
  \<^verbatim>\<open>Temperature\<close>, \<^verbatim>\<open>calculate_power_output\<close> appends the power of each row and
  returns the frame. The code reads \<^verbatim>\<open>self.TCN\<close> (line 129) and \<^verbatim>\<open>self.b_p\<close>
  (line 132), where the constructor and the setters assign \<^verbatim>\<open>TC_N\<close> and
  \<^verbatim>\<open>Beta_p\<close>: on every such panel the call raises \<^verbatim>\<open>AttributeError\<close> at line 129
  and appends nothing.
\<close>

theorem calculate_power_output_raises:
  assumes "map_of (irradiance_data self) ''Calculated_Irradiance'' = Some irr"
    and "map_of (irradiance_data self) ''Temperature'' = Some temp"
  shows "calculate_power_output self = Inl (AttributeError ''TCN'')"
proof -
  have "PVPanel_getattr self ''TCN'' = Inl (AttributeError ''TCN'')"
    by (simp add: PVPanel_getattr_def)
  with assms show ?thesis
    by (simp add: calculate_power_output_def Let_def column_present df_get_Some bind_err_def)
qed

theorem calculate_power_output_raises_witness:
  "map_of (irradiance_data (example_panel\<lparr>irradiance_data := example_frame\<rparr>))
       ''Calculated_Irradiance'' = Some (FloatSeries [0, 870])
   \<and> map_of (irradiance_data (example_panel\<lparr>irradiance_data := example_frame\<rparr>))
       ''Temperature'' = Some (FloatSeries [18, 29])
   \<and> validate_irradiance_data example_frame = Inr example_frame
   \<and> calculate_power_output (example_panel\<lparr>irradiance_data := example_frame\<rparr>)
       = Inl (AttributeError ''TCN'')"
proof -
  have a: "map_of (irradiance_data (example_panel\<lparr>irradiance_data := example_frame\<rparr>))
       ''Calculated_Irradiance'' = Some (FloatSeries [0, 870])"
    by (simp add: example_frame_def)
  have b: "map_of (irradiance_data (example_panel\<lparr>irradiance_data := example_frame\<rparr>))
       ''Temperature'' = Some (FloatSeries [18, 29])"
    by (simp add: example_frame_def)
  have c: "validate_irradiance_data example_frame = Inr example_frame"
    by (simp add: validate_irradiance_data_def example_frame_def df_columns_def lower_def
        lower_char_def)
  from a b c calculate_power_output_raises [OF a b] show ?thesis by simp
qed

subsection \<open>System aggregation\<close>

text \<open>
  C6. The claim: \<^verbatim>\<open>total_investment_cost\<close> returns the sum of the five components'
  costs, the grid and the load contributing 0. The code calls \<^verbatim>\<open>investment_cost()\<close>
  without an argument on each component: the panel and the grid define only
  \<^verbatim>\<open>calculate_investment_cost\<close>, so the call reaches the abstract method, which
  raises; the battery's and the generator's methods require an argument. For every
  system the first call raises and there is no total; only the load's call returns 0.
\<close>

theorem total_investment_cost_raises:
  "total_investment_cost self = Inl NotImplementedError
   \<and> PVPanel_investment_cost (pv self) = Inl NotImplementedError
   \<and> call1 (Battery_investment_cost (battery self)) [] = Inl TypeError
   \<and> call1 (DieselGen_investment_cost (diesel_gen self)) [] = Inl TypeError
   \<and> Grid_investment_cost (grid self) = Inl NotImplementedError
   \<and> Grid_calculate_investment_cost (grid self) = Inr 0
   \<and> Load_investment_cost (load self) = Inr 0"
  by (simp add: total_investment_cost_def PVPanel_investment_cost_def Grid_investment_cost_def
      Grid_calculate_investment_cost_def Component_investment_cost_def
      Load_investment_cost_def call1_def bind_err_def)

subsection \<open>Grid lookup\<close>

lemma filter_first_match:
  assumes "i < n" "P i" "\<forall>j<i. \<not> P j"
  shows "filter P [0..<n] = i # filter P [Suc i..<n]"
proof -
  have "[0..<i + (n - i)] = [0..<i] @ [i..<i + (n - i)]"
    by (rule upt_add_eq_append) simp
  then have "[0..<n] = [0..<i] @ i # [Suc i..<n]"
    using assms(1) by (simp add: upt_conv_Cons)
  moreover have "filter P [0..<i] = []"
    using assms(3) by (simp add: filter_empty_conv)
  ultimately show ?thesis using assms(2) by simp
qed

lemma column_exists:
  assumes "name \<in> set (df_columns df)"
  shows "\<exists>s. df_get df name = Inr s"
proof -
  from assms have "map_of df name \<noteq> None"
    by (simp add: df_columns_def map_of_eq_None_iff)
  then show ?thesis by (auto simp: df_get_def)
qed

lemma Grid_init_columns:
  assumes "Grid_init df = Inr g"
  shows "grid_data g = df"
    and "\<exists>s. df_get df ''month'' = Inr s" and "\<exists>s. df_get df ''day'' = Inr s"
    and "\<exists>s. df_get df ''hour'' = Inr s" and "\<exists>s. df_get df ''tariff'' = Inr s"
    and "\<exists>s. df_get df ''status'' = Inr s"
proof -
  from assms have v: "validate_grid_data df = Inr df" and g: "g = \<lparr>grid_data = df\<rparr>"
    by (auto simp: Grid_init_def bind_err_def validate_grid_data_def Let_def
        split: sum.splits if_splits)
  show "grid_data g = df" using g by simp
  from v have "filter (\<lambda>col. col \<notin> set (df_columns df))
                 [''month'', ''day'', ''hour'', ''tariff'', ''status''] = []"
    by (simp add: validate_grid_data_def Let_def split: if_splits)
  then have "''month'' \<in> set (df_columns df)" "''day'' \<in> set (df_columns df)"
    "''hour'' \<in> set (df_columns df)" "''tariff'' \<in> set (df_columns df)"
    "''status'' \<in> set (df_columns df)"
    unfolding filter_empty_conv by simp_all
  then show "\<exists>s. df_get df ''month'' = Inr s" "\<exists>s. df_get df ''day'' = Inr s"
    "\<exists>s. df_get df ''hour'' = Inr s" "\<exists>s. df_get df ''tariff'' = Inr s"
    "\<exists>s. df_get df ''status'' = Inr s"
    by (simp_all add: column_exists)
qed

text \<open>
  C8. For a grid built from a frame that passes the validation, and every triple
  \<open>(m, d, h)\<close>: the five columns exist; when no row of the frame matches the triple the
  lookup returns \<^verbatim>\<open>(None, None)\<close>; when row \<open>i\<close> is the first that matches, it returns
  the status and the tariff of row \<open>i\<close>; and in every case it returns, raising nothing.
\<close>

theorem get_grid_status_and_tariff_lookup:
  assumes "Grid_init df = Inr g"
  shows "\<exists>months days hours statuses tariffs.
           df_get df ''month'' = Inr months \<and> df_get df ''day'' = Inr days \<and>
           df_get df ''hour'' = Inr hours \<and> df_get df ''status'' = Inr statuses \<and>
           df_get df ''tariff'' = Inr tariffs \<and>
           ((\<forall>i<df_len df. \<not> row_matches months days hours m d h i) \<longrightarrow>
              get_grid_status_and_tariff g m d h = Inr (None, None)) \<and>
           (\<forall>i<df_len df. row_matches months days hours m d h i \<and>
                (\<forall>j<i. \<not> row_matches months days hours m d h j) \<longrightarrow>
              get_grid_status_and_tariff g m d h =
                Inr (Some (series_reals statuses ! i), Some (series_reals tariffs ! i))) \<and>
           (\<exists>r. get_grid_status_and_tariff g m d h = Inr r)"
proof -
  from Grid_init_columns [OF assms] obtain months days hours statuses tariffs where
    g: "grid_data g = df" and
    c: "df_get df ''month'' = Inr months" "df_get df ''day'' = Inr days"
       "df_get df ''hour'' = Inr hours" "df_get df ''status'' = Inr statuses"
       "df_get df ''tariff'' = Inr tariffs"
    by auto
  let ?P = "row_matches months days hours m d h"
  have unfold: "get_grid_status_and_tariff g m d h =
      (if filter ?P [0..<df_len df] = [] then Inr (None, None)
       else Inr (Some (series_reals statuses ! hd (filter ?P [0..<df_len df])),
                 Some (series_reals tariffs ! hd (filter ?P [0..<df_len df]))))"
    using g c
    by (simp add: get_grid_status_and_tariff_def bind_err_def row_matches_def [abs_def] Let_def)
  have none: "(\<forall>i<df_len df. \<not> ?P i) \<longrightarrow> get_grid_status_and_tariff g m d h = Inr (None, None)"
    by (simp add: unfold filter_empty_conv)
  have first: "\<forall>i<df_len df. ?P i \<and> (\<forall>j<i. \<not> ?P j) \<longrightarrow>
      get_grid_status_and_tariff g m d h =
        Inr (Some (series_reals statuses ! i), Some (series_reals tariffs ! i))"
  proof (intro allI impI)
    fix i assume "i < df_len df" and "?P i \<and> (\<forall>j<i. \<not> ?P j)"
    then have "filter ?P [0..<df_len df] = i # filter ?P [Suc i..<df_len df]"
      by (intro filter_first_match) auto
    then show "get_grid_status_and_tariff g m d h =
        Inr (Some (series_reals statuses ! i), Some (series_reals tariffs ! i))"
      by (simp add: unfold)
  qed
  have ret: "\<exists>r. get_grid_status_and_tariff g m d h = Inr r"
    by (simp add: unfold)
  from c none first ret show ?thesis by blast
qed

theorem get_grid_status_and_tariff_lookup_witness:
  "Grid_init example_grid_frame = Inr \<lparr>grid_data = example_grid_frame\<rparr>
   \<and> get_grid_status_and_tariff \<lparr>grid_data = example_grid_frame\<rparr> 1 1 1 = Inr (Some 0, Some 0.12)
   \<and> get_grid_status_and_tariff \<lparr>grid_data = example_grid_frame\<rparr> 2 30 5 = Inr (None, None)"
proof -
  let ?g = "\<lparr>grid_data = example_grid_frame\<rparr>"
  have i: "Grid_init example_grid_frame = Inr ?g"
    by (simp add: Grid_init_def validate_grid_data_def example_grid_frame_def df_columns_def
        bind_err_def)
  have cols: "df_get example_grid_frame ''month'' = Inr (IntSeries [1, 1, 1, 1])"
    "df_get example_grid_frame ''day'' = Inr (IntSeries [1, 1, 1, 2])"
    "df_get example_grid_frame ''hour'' = Inr (IntSeries [0, 1, 1, 0])"
    "df_get example_grid_frame ''status'' = Inr (IntSeries [1, 0, 1, 1])"
    "df_get example_grid_frame ''tariff'' = Inr (FloatSeries [0.10, 0.12, 0.15, 0.10])"
    by (simp_all add: df_get_def example_grid_frame_def)
  have len: "df_len example_grid_frame = 4"
    by (simp add: df_len_def example_grid_frame_def)
  have lt4: "\<And>P. (\<forall>i<4::nat. P i) = (P 0 \<and> P 1 \<and> P 2 \<and> P 3)"
    by (auto simp: numeral_eq_Suc All_less_Suc)
  from get_grid_status_and_tariff_lookup [OF i, of 1 1 1]
  have a: "get_grid_status_and_tariff ?g 1 1 1 = Inr (Some 0, Some 0.12)"
    unfolding cols len lt4 by (simp add: row_matches_def)
  from get_grid_status_and_tariff_lookup [OF i, of 2 30 5]
  have b: "get_grid_status_and_tariff ?g 2 30 5 = Inr (None, None)"
    unfolding cols len lt4 by (simp add: row_matches_def)
  from i a b show ?thesis by simp
qed

subsection \<open>Day of the year\<close>

lemma cum_days_common: "cum_days (DY_per_MO 396) = common_year_offsets"
  by (simp add: cum_days_def DY_per_MO_def np_cumsum_def common_year_offsets_def)

lemma year_days_december_31:
  "8760 < n \<Longrightarrow> year_days n 31 12 = Inr 396"
  by (simp add: year_days_def np_cumsum_def np_index_def bind_err_def)

lemma offsets_in_range:
  assumes "\<forall>m\<in>set month. 1 \<le> m \<and> m \<le> 12"
  shows "sequence_err (map (\<lambda>m. np_index common_year_offsets (m - 1)) month)
         = Inr (map (\<lambda>m. common_year_offsets ! nat (m - 1)) month)"
  using assms
proof (induction month)
  case Nil
  then show ?case by simp
next
  case (Cons m ms)
  then have "np_index common_year_offsets (m - 1) = Inr (common_year_offsets ! nat (m - 1))"
    by (simp add: np_index_def common_year_offsets_def)
  with Cons show ?case by simp
qed

lemma length_day_block: "length (day_block n) = 24 * n"
  by (induction n) (simp_all add: day_block_def)

lemma last_day_block: "last (day_block (Suc n)) = real (Suc n)"
  by (simp add: day_block_def)

lemma hd_day_block: "day_block (Suc n) ! 0 = 1"
  by (simp add: day_block_def upt_conv_Cons nth_append del: upt_Suc)

lemma length_leap_year:
  "length leap_year_months = 8784" "length leap_year_days = 8784"
  by (simp_all add: leap_year_months_def leap_year_days_def month_block_def length_day_block)

lemma last_leap_year: "last leap_year_months = 12" "last leap_year_days = 31"
proof -
  show "last leap_year_months = 12"
    by (simp add: leap_year_months_def month_block_def)
  have "last (day_block (Suc 30)) = real (Suc 30)" by (rule last_day_block)
  moreover have "day_block (Suc 30) \<noteq> []"
    using length_day_block [of "Suc 30"] by auto
  ultimately show "last leap_year_days = 31"
    by (simp add: leap_year_days_def)
qed

lemma months_leap_year: "\<forall>m\<in>set leap_year_months. 1 \<le> m \<and> m \<le> 12"
  by (auto simp: leap_year_months_def month_block_def)

lemma march_first: "leap_year_months ! 1440 = 3" "leap_year_days ! 1440 = 1"
proof -
  show "leap_year_months ! 1440 = 3"
    by (simp add: leap_year_months_def month_block_def nth_append)
  have "day_block (Suc 30) ! 0 = 1" by (rule hd_day_block)
  then show "leap_year_days ! 1440 = 1"
    by (simp add: leap_year_days_def nth_append length_day_block)
qed

text \<open>
  C3. The claim: a data set of more than 8760 rows has 29 days of February in every
  day-of-year computation. The docstring says the method adjusts for leap years, and
  line 251 tests \<^verbatim>\<open>year_days == 366\<close>; but line 250 adds the day of the last row to the
  running sum that already includes the last row's whole month. For every data set of
  more than 8760 rows that ends on December 31, so for every hourly data set of a leap
  year, \<^verbatim>\<open>year_days\<close> is \<open>31 + 366 - 1 = 396\<close>, the comparison fails, February has 28
  days, and each row's day of the year is its day plus the offset of a 365-day year:
  March 1 is day 60, not 61.
\<close>

theorem day_of_year_ignores_leap_year:
  assumes "length month = n" and "length day = n" and "8760 < n"
    and "last month = 12" and "last day = 31"
    and "\<forall>m\<in>set month. 1 \<le> m \<and> m \<le> 12"
  shows "year_days n (last day) (last month) = Inr 396
       \<and> DY_per_MO 396 = [31, 28, 31, 30, 31, 30, 31, 31, 30, 31, 30, 31]
       \<and> day_of_year n month day
           = Inr (map (\<lambda>(d, m). d + of_int (common_year_offsets ! nat (m - 1))) (zip day month))"
proof -
  have ne: "day \<noteq> []" "month \<noteq> []" using assms by auto
  have yd: "year_days n 31 12 = Inr 396" using assms(3) by (rule year_days_december_31)
  have z: "map (\<lambda>(d, c). d + real_of_int c)
             (zip day (map (\<lambda>m. common_year_offsets ! nat (m - 1)) month))
           = map (\<lambda>(d, m). d + of_int (common_year_offsets ! nat (m - 1))) (zip day month)"
    by (simp add: zip_map2 case_prod_unfold)
  have "day_of_year n month day
        = Inr (map (\<lambda>(d, c). d + real_of_int c)
             (zip day (map (\<lambda>m. common_year_offsets ! nat (m - 1)) month)))"
    using ne assms(4,5) yd offsets_in_range [OF assms(6)]
    by (simp add: day_of_year_def iloc_last_def bind_err_def cum_days_common)
  with z yd assms(4,5) show ?thesis by (simp add: DY_per_MO_def)
qed

theorem day_of_year_ignores_leap_year_witness:
  "length leap_year_months = 8784 \<and> length leap_year_days = 8784 \<and> (8760::nat) < 8784
   \<and> last leap_year_months = 12 \<and> last leap_year_days = 31
   \<and> leap_year_months ! 1440 = 3 \<and> leap_year_days ! 1440 = 1
   \<and> (\<exists>doy. day_of_year 8784 leap_year_months leap_year_days = Inr doy \<and> doy ! 1440 = 60)"
proof -
  have h: "(8760::nat) < 8784" by simp
  note t = day_of_year_ignores_leap_year [OF length_leap_year h last_leap_year months_leap_year]
  have "map (\<lambda>(d, m). d + of_int (common_year_offsets ! nat (m - 1)))
          (zip leap_year_days leap_year_months) ! 1440 = 60"
    using march_first by (simp add: length_leap_year common_year_offsets_def)
  with t length_leap_year last_leap_year march_first show ?thesis by simp
qed

subsection \<open>Column resolution\<close>

text \<open>
  The inner loop assigns the column to every key its lower-cased name contains and
  keeps the keys; the outer loop runs over the columns in order, so a later column
  overwrites an earlier one.
\<close>

lemma map_fst_dict_set:
  "k \<in> fst ` set rc \<Longrightarrow> map fst (dict_set rc k v) = map fst rc"
  by (induction rc) (fastforce simp: image_iff)+

lemma map_of_dict_set: "map_of (dict_set rc k v) = (map_of rc)(k \<mapsto> v)"
  by (induction rc) (auto simp: fun_eq_iff)

lemma fold_assign_keys:
  assumes "set ks \<subseteq> fst ` set rc"
  shows "map fst (fold (\<lambda>req rc. if P req then dict_set rc req v else rc) ks rc) = map fst rc"
  using assms
proof (induction ks arbitrary: rc)
  case Nil
  then show ?case by simp
next
  case (Cons k ks)
  let ?rc = "if P k then dict_set rc k v else rc"
  have "map fst ?rc = map fst rc" using Cons.prems by (simp add: map_fst_dict_set)
  moreover from this have "set ks \<subseteq> fst ` set ?rc"
    using Cons.prems by (metis list.set_map set_subset_Cons subset_trans)
  ultimately show ?case using Cons.IH [of ?rc] by simp
qed

lemma fold_assign_map_of:
  "map_of (fold (\<lambda>req rc. if P req then dict_set rc req v else rc) ks rc) k
   = (if k \<in> set ks \<and> P k then Some v else map_of rc k)"
  by (induction ks arbitrary: rc) (auto simp: map_of_dict_set)

lemma resolve_column_keys: "map fst (resolve_column col rc) = map fst rc"
  unfolding resolve_column_def by (rule fold_assign_keys) simp

lemma resolve_column_map_of:
  "map_of (resolve_column col rc) k
   = (if k \<in> fst ` set rc \<and> contains k (lower col) then Some (Some col) else map_of rc k)"
  unfolding resolve_column_def by (simp add: fold_assign_map_of)

lemma fold_resolve_keys: "map fst (fold resolve_column cols rc) = map fst rc"
  by (induction cols arbitrary: rc) (simp_all add: resolve_column_keys)

lemma find_snoc:
  "find P (xs @ [c]) = (case find P xs of Some y \<Rightarrow> Some y | None \<Rightarrow> if P c then Some c else None)"
  by (induction xs) auto

lemma fold_resolve_map_of:
  assumes "k \<in> fst ` set rc"
  shows "map_of (fold resolve_column cols rc) k
         = (case find (\<lambda>col. contains k (lower col)) (rev cols) of
              Some c \<Rightarrow> Some (Some c) | None \<Rightarrow> map_of rc k)"
  using assms
proof (induction cols arbitrary: rc)
  case Nil
  then show ?case by simp
next
  case (Cons c cs)
  have "k \<in> fst ` set (resolve_column c rc)"
    using Cons.prems resolve_column_keys [of c rc] by (metis list.set_map)
  from Cons.IH [OF this] Cons.prems show ?case
    by (simp add: resolve_column_map_of find_snoc split: option.splits)
qed

lemma resolve_columns_keys: "map fst (resolve_columns cols) = required_names"
  by (simp add: resolve_columns_def fold_resolve_keys comp_def)

lemma resolve_columns_map_of:
  assumes "req \<in> set required_names"
  shows "map_of (resolve_columns cols) req = Some (find (\<lambda>col. contains req (lower col)) (rev cols))"
proof -
  let ?rc = "map (\<lambda>req. (req, None :: string option)) required_names"
  have k: "req \<in> fst ` set ?rc" using assms by (simp add: image_image)
  have "map_of ?rc req = Some None"
    using assms by (simp add: map_of_map_restrict)
  with fold_resolve_map_of [OF k, of cols] show ?thesis
    by (simp add: resolve_columns_def split: option.splits)
qed

lemma missing_keys:
  assumes "distinct (map fst rc)"
  shows "map fst (filter (\<lambda>(key, val). val = None) rc)
         = filter (\<lambda>key. map_of rc key = Some None) (map fst rc)"
  using assms
proof (induction rc)
  case Nil
  then show ?case by simp
next
  case (Cons p rc)
  obtain k v where p: "p = (k, v)" by (cases p)
  have "filter (\<lambda>key. (if key = k then Some v else map_of rc key) = Some None) (map fst rc)
        = filter (\<lambda>key. map_of rc key = Some None) (map fst rc)"
    using Cons.prems p by (intro filter_cong) auto
  with Cons p show ?case by simp
qed

lemma none_among_values:
  assumes "distinct (map fst rc)"
  shows "None \<in> set (map snd rc) \<longleftrightarrow> (\<exists>key\<in>set (map fst rc). map_of rc key = Some None)"
proof
  assume "None \<in> set (map snd rc)"
  then obtain k where "(k, None) \<in> set rc" by auto
  with assms have "map_of rc k = Some None" by (simp add: map_of_eq_Some_iff)
  moreover have "k \<in> set (map fst rc)" using \<open>(k, None) \<in> set rc\<close> by force
  ultimately show "\<exists>key\<in>set (map fst rc). map_of rc key = Some None" by blast
next
  assume "\<exists>key\<in>set (map fst rc). map_of rc key = Some None"
  then obtain k where "map_of rc k = Some None" by blast
  then have "(k, None) \<in> set rc" by (rule map_of_SomeD)
  then show "None \<in> set (map snd rc)" by force
qed

lemma distinct_required_names: "distinct required_names"
  by (simp add: required_names_def)

lemma check_required_resolve:
  "check_required (resolve_columns cols)
   = (if \<exists>req\<in>set required_names. \<forall>col\<in>set cols. \<not> contains req (lower col)
      then Inl (ValueError_missing_columns
                 (filter (\<lambda>req. \<forall>col\<in>set cols. \<not> contains req (lower col)) required_names))
      else Inr (resolve_columns cols))"
proof -
  let ?rc = "resolve_columns cols"
  have d: "distinct (map fst ?rc)"
    by (simp add: resolve_columns_keys distinct_required_names)
  have m: "\<And>req. req \<in> set required_names \<Longrightarrow>
             map_of ?rc req = Some None \<longleftrightarrow> (\<forall>col\<in>set cols. \<not> contains req (lower col))"
    by (auto simp: resolve_columns_map_of find_None_iff)
  have f: "filter (\<lambda>key. map_of ?rc key = Some None) required_names
           = filter (\<lambda>req. \<forall>col\<in>set cols. \<not> contains req (lower col)) required_names"
    by (intro filter_cong) (simp_all add: m)
  have n: "None \<in> set (map snd ?rc)
           \<longleftrightarrow> (\<exists>req\<in>set required_names. \<forall>col\<in>set cols. \<not> contains req (lower col))"
    using none_among_values [OF d] m by (simp add: resolve_columns_keys)
  show ?thesis
    unfolding check_required_def missing_keys [OF d] n
    by (simp add: resolve_columns_keys f)
qed

text \<open>
  C7, as stated: each required name is resolved to the first column whose lower-cased
  name contains it. On a frame with the columns \<^verbatim>\<open>Day\<close> and, further right,
  \<^verbatim>\<open>Weekday\<close>, which passes the validation of the constructor, \<^verbatim>\<open>day\<close> is resolved
  to \<^verbatim>\<open>Weekday\<close>; the first column that contains it is \<^verbatim>\<open>Day\<close>.
\<close>

theorem resolve_columns_first_match_counterexample:
  "validate_irradiance_data weekday_frame = Inr weekday_frame
   \<and> map_of (resolve_columns (df_columns weekday_frame)) ''day'' = Some (Some ''Weekday'')
   \<and> find (\<lambda>col. contains ''day'' (lower col)) (df_columns weekday_frame) = Some ''Day''"
  by (simp add: validate_irradiance_data_def weekday_frame_def df_columns_def lower_def
      lower_char_def resolve_columns_def resolve_column_def required_names_def)

text \<open>
  C7, amended: each required name is resolved, case-insensitively and by substring
  containment, to the last column of the frame whose lower-cased name contains it; and if
  some required name is contained in no column, \<^verbatim>\<open>calculate_irradiance_vector\<close> fails
  with the validation error that names exactly the required names contained in no
  column, in the order of the dictionary.
\<close>

theorem resolve_columns_last_match:
  "(\<forall>req\<in>set required_names.
      map_of (resolve_columns columns) req
        = Some (find (\<lambda>col. contains req (lower col)) (rev columns)))
   \<and> ((\<exists>req\<in>set required_names.
         \<forall>col\<in>set (df_columns (irradiance_data self)). \<not> contains req (lower col)) \<longrightarrow>
       calculate_irradiance_vector self
         = Inl (ValueError_missing_columns
                 (filter (\<lambda>req. \<forall>col\<in>set (df_columns (irradiance_data self)).
                                  \<not> contains req (lower col)) required_names)))"
  by (simp add: resolve_columns_map_of calculate_irradiance_vector_def Let_def
      check_required_resolve bind_err_def)

theorem resolve_columns_last_match_witness:
  "''day'' \<in> set required_names
   \<and> map_of (resolve_columns (df_columns weekday_frame)) ''day'' = Some (Some ''Weekday'')
   \<and> (\<exists>req\<in>set required_names.
         \<forall>col\<in>set (df_columns no_zenith_frame). \<not> contains req (lower col))
   \<and> calculate_irradiance_vector (example_panel\<lparr>irradiance_data := no_zenith_frame\<rparr>)
       = Inl (ValueError_missing_columns [''solar zenith''])"
proof -
  let ?p = "example_panel\<lparr>irradiance_data := no_zenith_frame\<rparr>"
  have h: "''day'' \<in> set required_names" by (simp add: required_names_def)
  have z: "\<forall>col\<in>set (df_columns no_zenith_frame). \<not> contains ''solar zenith'' (lower col)"
    by (simp add: no_zenith_frame_def df_columns_def lower_def lower_char_def)
  have e: "\<exists>req\<in>set required_names.
         \<forall>col\<in>set (df_columns (irradiance_data ?p)). \<not> contains req (lower col)"
    using z by (auto simp: required_names_def)
  note t = resolve_columns_last_match [of "df_columns weekday_frame" ?p]
  from t h have "map_of (resolve_columns (df_columns weekday_frame)) ''day''
      = Some (find (\<lambda>col. contains ''day'' (lower col)) (rev (df_columns weekday_frame)))"
    by blast
  then have a: "map_of (resolve_columns (df_columns weekday_frame)) ''day''
      = Some (Some ''Weekday'')"
    by (simp add: weekday_frame_def df_columns_def lower_def lower_char_def)
  from t e have "calculate_irradiance_vector ?p
      = Inl (ValueError_missing_columns
               (filter (\<lambda>req. \<forall>col\<in>set (df_columns (irradiance_data ?p)).
                                \<not> contains req (lower col)) required_names))"
    by blast
  then have b: "calculate_irradiance_vector ?p = Inl (ValueError_missing_columns [''solar zenith''])"
    by (simp add: no_zenith_frame_def df_columns_def lower_def lower_char_def required_names_def)
  from h a e b show ?thesis by simp
qed

end
